theory Spec2Isabelle
  imports Complex_Main
begin

section \<open>Math boxes of BokehJS: \<^verbatim>\<open>bokehjs/src/lib/core/math_graphics.ts\<close>\<close>

text \<open>
  A shallow embedding of the class \<^verbatim>\<open>MathBox\<close> and of its three dialects
  \<^verbatim>\<open>TeXBox\<close>, \<^verbatim>\<open>MathMLBox\<close> and \<^verbatim>\<open>AsciiBox\<close>.

  \<^item> A JavaScript \<^verbatim>\<open>number\<close> is a \<^typ>\<open>real\<close>: the development is about finite
    numbers computed exactly; \<^verbatim>\<open>NaN\<close>, the infinities and rounding are not represented.
    Every field holds a value of its declared TypeScript type.
  \<^item> A JavaScript string is a \<^typ>\<open>string\<close>; each \<^typ>\<open>char\<close> stands for one code unit
    in the range 0..255.
  \<^item> A \<^verbatim>\<open>throw\<close> is an error value (the left injection of a sum, or \<open>Some e\<close> where the
    method returns nothing); a method that mutates the box returns
    the box it leaves behind, also when it throws.
  \<^item> What the module imports from files that are not among the sources at hand
    (\<^verbatim>\<open>font_metrics\<close>, the CSS parsers, the colour conversions, the typesetting engine, the
    built-ins \<^verbatim>\<open>parseFloat\<close> and number formatting) is a field of the environment
    record \<open>Env\<close>; every theorem holds for every environment.
\<close>

subsection \<open>Exceptions\<close>

datatype error =
    Error string      \<comment> \<open>\<^verbatim>\<open>throw new Error(msg)\<close>\<close>
  | TypeError         \<comment> \<open>a property read or a method call on \<^verbatim>\<open>undefined\<close> or \<^verbatim>\<open>null\<close>\<close>
  | EngineError string  \<comment> \<open>an exception raised inside the typesetting engine\<close>

subsection \<open>Data\<close>

text \<open>An \<^verbatim>\<open>SVGSVGElement\<close>, as far as the module reads it: its attributes.\<close>

type_synonym SVGSVGElement = "(string \<times> string) list"

definition getAttribute :: "SVGSVGElement \<Rightarrow> string \<Rightarrow> string option" where
  "getAttribute el name = map_of el name"

record Size =
  width :: real
  height :: real

text \<open>The result of \<^verbatim>\<open>font_metrics\<close>; its field \<^verbatim>\<open>height\<close> is \<open>metrics_height\<close> here.\<close>

record FontMetrics =
  ascent :: real
  descent :: real
  metrics_height :: real
  x_height :: real

text \<open>A parsed CSS length \<^verbatim>\<open>{value, unit}\<close>.\<close>

type_synonym css_length = "real \<times> string"

text \<open>
  The MathJax module the provider hands out once it is loaded. A conversion returns the
  children of the container element it builds, or throws. \<^verbatim>\<open>new MathJaxCanvas(svg, ctx, size)\<close>
  and its method \<^verbatim>\<open>draw()\<close> may throw (\<open>Some e\<close>).
\<close>

record MathJaxModule =
  tex2svg :: "string \<Rightarrow> real \<Rightarrow> real \<Rightarrow> error + SVGSVGElement list"
  mathml2svg :: "string \<Rightarrow> real \<Rightarrow> real \<Rightarrow> error + SVGSVGElement list"
  MathJaxCanvas_new :: "SVGSVGElement option \<Rightarrow> Size \<Rightarrow> error option"
  MathJaxCanvas_draw :: "SVGSVGElement option \<Rightarrow> Size \<Rightarrow> error option"

datatype provider_status = not_started | loading | loaded | failed

text \<open>
  The provider singleton \<^verbatim>\<open>default_provider\<close>: its \<^verbatim>\<open>status\<close>, its getter \<^verbatim>\<open>MathJax\<close>
  (\<open>None\<close> for a falsy handle) and, for the record, how many times \<^verbatim>\<open>fetch()\<close> was started.
\<close>

record MathJaxProvider =
  status :: provider_status
  MathJax :: "MathJaxModule option"
  fetches :: nat

datatype x_keyword = X_left | X_center | X_right
datatype y_keyword = Y_top | Y_center | Y_bottom | Y_baseline

text \<open>An anchor is a number or a keyword (\<^verbatim>\<open>isNumber\<close> tells them apart).\<close>

datatype 'a anchor = Number real | Keyword 'a

record Position =
  sx :: real
  sy :: real
  x_anchor :: "x_keyword anchor option"
  y_anchor :: "y_keyword anchor option"

datatype dialect = TeXBox | MathMLBox | AsciiBox

text \<open>
  The state of a box. \<open>font\<close>, \<open>color\<close>, \<open>box_text\<close> (the field \<^verbatim>\<open>text\<close>) and \<open>valign\<close> are
  declared by \<^verbatim>\<open>MathBox\<close>; the others are inherited from \<^verbatim>\<open>GraphicsBox\<close>: \<open>position\<close>,
  \<open>angle\<close>, \<open>box_width\<close> and \<open>box_height\<close> (the optional fields \<^verbatim>\<open>width\<close> and \<^verbatim>\<open>height\<close>),
  \<open>base_font_size\<close> (\<^verbatim>\<open>_base_font_size\<close>), \<open>font_size_scale\<close>, \<open>box_x_anchor\<close> and
  \<open>box_y_anchor\<close> (\<^verbatim>\<open>_x_anchor\<close> and \<^verbatim>\<open>_y_anchor\<close>). The constructor assigns \<^verbatim>\<open>text\<close> only;
  \<open>valign\<close>, declared a \<^verbatim>\<open>number\<close>, is taken to hold one from the start. In the program
  the field is \<^verbatim>\<open>undefined\<close> until \<^verbatim>\<open>svg_size()\<close> first stores a value, and arithmetic on it
  gives \<^verbatim>\<open>NaN\<close>: what is proved of a value computed from \<open>valign\<close> is about a box whose
  field holds a number.
\<close>

record MathBox =
  dialect :: dialect
  font :: string
  color :: string
  box_text :: string
  valign :: real
  position :: Position
  angle :: "real option"
  box_width :: "css_length option"
  box_height :: "css_length option"
  base_font_size :: real
  font_size_scale :: real
  box_x_anchor :: x_keyword
  box_y_anchor :: y_keyword

text \<open>A colour value of the visuals; the module only hands it to \<^verbatim>\<open>color2css\<close>.\<close>

type_synonym Color = string

record Env =
  provider :: MathJaxProvider
  font_metrics :: "string \<Rightarrow> FontMetrics"
  parse_css_font_size :: "string \<Rightarrow> css_length option"
  parse_css_length :: "string option \<Rightarrow> error + css_length option"
  color2css :: "Color \<Rightarrow> real \<Rightarrow> string"
  color2hexrgb :: "string \<Rightarrow> string"
  color2rgba :: "string \<Rightarrow> real \<times> real \<times> real \<times> real"
  parseFloat :: "string \<Rightarrow> real"
  number_to_string :: "real \<Rightarrow> string"

subsection \<open>String operations of JavaScript\<close>

text \<open>\<^verbatim>\<open>String.prototype.trim\<close>: white space and line terminators below code 256.\<close>

definition is_space :: "char \<Rightarrow> bool" where
  "is_space c = ((of_char c :: nat) \<in> {9, 10, 11, 12, 13, 32, 160})"

definition trim :: "string \<Rightarrow> string" where
  "trim s = rev (dropWhile is_space (rev (dropWhile is_space s)))"

fun starts_with :: "string \<Rightarrow> string \<Rightarrow> bool" where
  "starts_with s [] = True"
| "starts_with [] (p # ps) = False"
| "starts_with (c # cs) (p # ps) = (c = p \<and> starts_with cs ps)"

text \<open>\<^verbatim>\<open>s.includes(p)\<close>.\<close>

fun str_includes :: "string \<Rightarrow> string \<Rightarrow> bool" where
  "str_includes [] p = (p = [])"
| "str_includes (c # cs) p = (starts_with (c # cs) p \<or> str_includes cs p)"

text \<open>\<^verbatim>\<open>s.indexOf(p)\<close>: the first index where \<open>p\<close> starts, or \<open>-1\<close>.\<close>

fun indexOf :: "string \<Rightarrow> string \<Rightarrow> int" where
  "indexOf [] p = (if p = [] then 0 else -1)"
| "indexOf (c # cs) p =
     (if starts_with (c # cs) p then 0
      else (let i = indexOf cs p in if i < 0 then -1 else i + 1))"

text \<open>\<^verbatim>\<open>s.split(sep)\<close> for a separator of one character: never the empty list.\<close>

fun split :: "char \<Rightarrow> string \<Rightarrow> string list" where
  "split sep [] = [[]]"
| "split sep (c # cs) =
     (if c = sep then [] # split sep cs
      else (case split sep cs of
              [] \<Rightarrow> [[c]]
            | w # ws \<Rightarrow> (c # w) # ws))"

text \<open>\<^verbatim>\<open>s.replace(/([A-z])/g, "")\<close>: the class \<^verbatim>\<open>[A-z]\<close> is the code range 65..122.\<close>

definition strip_A_to_z :: "string \<Rightarrow> string" where
  "strip_A_to_z s = filter (\<lambda>c. \<not> (65 \<le> (of_char c :: nat) \<and> (of_char c :: nat) \<le> 122)) s"

text \<open>
  Modelled from the spec: \<^verbatim>\<open>insert_text_on_position\<close> of \<^verbatim>\<open>core/util/string\<close> is not
  among the sources. The styling is spliced into the text at the given index: the text
  before the index, the insertion, the text from the index on.
\<close>

definition insert_text_on_position :: "string \<Rightarrow> int \<Rightarrow> string \<Rightarrow> string" where
  "insert_text_on_position destination pos str =
     take (nat pos) destination @ str @ drop (nat pos) destination"

subsection \<open>Regular expressions\<close>

text \<open>
  The fragment of JavaScript's regular expressions that the module uses, with the
  backtracking order of the language: \<open>rests r s\<close> lists what is left of \<open>s\<close> after
  each way of matching \<open>r\<close> at its start, the way tried first coming first. A greedy
  \<^verbatim>\<open>(r)?\<close> tries \<open>r\<close> before the empty match; a lazy \<^verbatim>\<open>k*?\<close> tries the shorter
  repetition first.
\<close>

datatype char_class =
    Any_char                \<comment> \<open>\<^verbatim>\<open>.\<close> under the flag \<^verbatim>\<open>s\<close>\<close>
  | None_of "char list"     \<comment> \<open>\<^verbatim>\<open>[^...]\<close>\<close>

datatype regex =
    Lit string
  | Class char_class
  | Seq regex regex
  | Opt regex
  | Lazy_star char_class

fun in_class :: "char_class \<Rightarrow> char \<Rightarrow> bool" where
  "in_class Any_char c = True"
| "in_class (None_of cs) c = (c \<notin> set cs)"

fun lit_rest :: "string \<Rightarrow> string \<Rightarrow> string option" where
  "lit_rest [] s = Some s"
| "lit_rest (p # ps) [] = None"
| "lit_rest (p # ps) (c # cs) = (if p = c then lit_rest ps cs else None)"

fun lazy_star_rests :: "char_class \<Rightarrow> string \<Rightarrow> string list" where
  "lazy_star_rests k [] = [[]]"
| "lazy_star_rests k (c # cs) = (c # cs) # (if in_class k c then lazy_star_rests k cs else [])"

fun rests :: "regex \<Rightarrow> string \<Rightarrow> string list" where
  "rests (Lit p) s = (case lit_rest p s of None \<Rightarrow> [] | Some r \<Rightarrow> [r])"
| "rests (Class k) s = (case s of [] \<Rightarrow> [] | c # cs \<Rightarrow> if in_class k c then [cs] else [])"
| "rests (Seq a b) s = concat (map (rests b) (rests a s))"
| "rests (Opt a) s = rests a s @ [s]"
| "rests (Lazy_star k) s = lazy_star_rests k s"

text \<open>The text matched at the start of \<open>s\<close>: the first way that succeeds.\<close>

definition match_here :: "regex \<Rightarrow> string \<Rightarrow> string option" where
  "match_here r s =
     (case rests r s of [] \<Rightarrow> None | rest # _ \<Rightarrow> Some (take (length s - length rest) s))"

text \<open>\<^verbatim>\<open>s.match(r)\<close> without the flag \<^verbatim>\<open>g\<close>: element 0 of the leftmost match.\<close>

fun js_match :: "regex \<Rightarrow> string \<Rightarrow> string option" where
  "js_match r [] = match_here r []"
| "js_match r (c # cs) =
     (case match_here r (c # cs) of Some m \<Rightarrow> Some m | None \<Rightarrow> js_match r cs)"

text \<open>\<^verbatim>\<open>/<math(.*?[^?])?>/s\<close>\<close>

definition open_tag_re :: regex where
  "open_tag_re =
     Seq (Lit ''<math'')
       (Seq (Opt (Seq (Lazy_star Any_char) (Class (None_of ''?''))))
         (Lit ''>''))"

text \<open>\<^verbatim>\<open>/<\/[^>]*?math.*?>/s\<close>\<close>

definition close_tag_re :: regex where
  "close_tag_re =
     Seq (Lit ''</'')
       (Seq (Lazy_star (None_of ''>''))
         (Seq (Lit ''math'')
           (Seq (Lazy_star Any_char) (Lit ''>''))))"

text \<open>
  Two predicates that say, by recursion on the text, where the pattern of the closing
  tag is found (lemma \<open>js_match_close_tag\<close>): \<open>tag_tail r\<close> when \<open>r\<close> is some characters
  other than \<^verbatim>\<open>>\<close>, then \<^verbatim>\<open>math\<close>, then a text that holds a \<^verbatim>\<open>>\<close>; \<open>has_closing_tag s\<close>
  when \<open>s\<close> holds \<^verbatim>\<open></\<close> followed by such an \<open>r\<close>.
\<close>

fun tag_tail :: "string \<Rightarrow> bool" where
  "tag_tail [] = False"
| "tag_tail (c # cs) =
     ((starts_with (c # cs) ''math'' \<and> CHR ''>'' \<in> set (drop 4 (c # cs))) \<or>
      (c \<noteq> CHR ''>'' \<and> tag_tail cs))"

fun has_closing_tag :: "string \<Rightarrow> bool" where
  "has_closing_tag [] = False"
| "has_closing_tag (c # cs) =
     ((starts_with (c # cs) ''</'' \<and> tag_tail (drop 2 (c # cs))) \<or> has_closing_tag cs)"

subsection \<open>The styled formula of each dialect\<close>

definition backslash :: string where
  "backslash = [CHR 0x5C]"

definition dquote :: string where
  "dquote = [CHR 0x22]"

definition TeXBox_styled_formula :: "Env \<Rightarrow> MathBox \<Rightarrow> string" where
  "TeXBox_styled_formula env b =
     (case color2rgba env (color b) of
        (r, g, bl, a) \<Rightarrow>
          backslash @ ''color[RGB]{'' @ number_to_string env r @ '', '' @
          number_to_string env g @ '', '' @ number_to_string env bl @ ''} '' @
          (if str_includes (font b) ''bold''
           then backslash @ ''bf{'' @ box_text b @ ''}''
           else box_text b))"

text \<open>The opening \<^verbatim>\<open>mstyle\<close> tag that \<^verbatim>\<open>MathMLBox\<close> inserts.\<close>

definition mstyle_open :: "Env \<Rightarrow> MathBox \<Rightarrow> string" where
  "mstyle_open env b =
     ''<mstyle displaystyle='' @ dquote @ ''true'' @ dquote @
     '' mathcolor='' @ dquote @ color2hexrgb env (color b) @ dquote @ '' '' @
     (if str_includes (font b) ''bold''
      then ''mathvariant='' @ dquote @ ''bold'' @ dquote
      else []) @
     ''>''"

definition MathMLBox_styled_formula :: "Env \<Rightarrow> MathBox \<Rightarrow> string" where
  "MathMLBox_styled_formula env b =
     (let styled = trim (box_text b) in
      case js_match open_tag_re styled of
        None \<Rightarrow> trim (box_text b)
      | Some m \<Rightarrow>
          (let styled' =
                 insert_text_on_position styled (indexOf styled m + int (length m))
                   (mstyle_open env b)
           in case js_match close_tag_re styled' of
                None \<Rightarrow> trim (box_text b)
              | Some m' \<Rightarrow>
                  insert_text_on_position styled' (indexOf styled' m') ''</mstyle>''))"

definition AsciiBox_styled_formula :: "Env \<Rightarrow> MathBox \<Rightarrow> string" where
  "AsciiBox_styled_formula env b =
     (case color2rgba env (color b) of
        (r, g, bl, a) \<Rightarrow>
          (let ascii = backslash @ ''text '' @ box_text b in
           backslash @ ''color[RGB]{'' @ number_to_string env r @ '', '' @
           number_to_string env g @ '', '' @ number_to_string env bl @ ''} '' @
           (if str_includes (font b) ''bold''
            then backslash @ ''bf{'' @ ascii @ ''}''
            else ascii)))"

subsection \<open>\<^verbatim>\<open>to_svg\<close> of each dialect\<close>

text \<open>\<^verbatim>\<open>children[0]\<close> of the container: \<^verbatim>\<open>undefined\<close> (\<open>None\<close>) when it has no child.\<close>

definition first_child :: "SVGSVGElement list \<Rightarrow> SVGSVGElement option" where
  "first_child children = (case children of [] \<Rightarrow> None | c # _ \<Rightarrow> Some c)"

definition TeXBox_to_svg :: "Env \<Rightarrow> MathBox \<Rightarrow> error + SVGSVGElement option" where
  "TeXBox_to_svg env b =
     (case MathJax (provider env) of
        None \<Rightarrow> Inl (Error ''Please load MathJax before calling to_svg()'')
      | Some mj \<Rightarrow>
          (case tex2svg mj (TeXBox_styled_formula env b) (base_font_size b)
                  (x_height (font_metrics env (font b))) of
             Inl e \<Rightarrow> Inl e
           | Inr children \<Rightarrow> Inr (first_child children)))"

definition MathMLBox_to_svg :: "Env \<Rightarrow> MathBox \<Rightarrow> error + SVGSVGElement option" where
  "MathMLBox_to_svg env b =
     (case MathJax (provider env) of
        None \<Rightarrow> Inl (Error ''Please load MathJax before calling to_svg()'')
      | Some mj \<Rightarrow>
          (let fmetrics = font_metrics env (font b) in
           case mathml2svg mj (MathMLBox_styled_formula env b) (base_font_size b)
                  (x_height fmetrics) of
             Inl e \<Rightarrow> Inl e
           | Inr children \<Rightarrow> Inr (first_child children)))"

definition AsciiBox_to_svg :: "Env \<Rightarrow> MathBox \<Rightarrow> error + SVGSVGElement option" where
  "AsciiBox_to_svg env b =
     (case MathJax (provider env) of
        None \<Rightarrow> Inl (Error ''Please load MathJax before calling to_svg()'')
      | Some mj \<Rightarrow>
          (case tex2svg mj (AsciiBox_styled_formula env b) (base_font_size b)
                  (x_height (font_metrics env (font b))) of
             Inl e \<Rightarrow> Inl e
           | Inr children \<Rightarrow> Inr (first_child children)))"

text \<open>The abstract members of \<^verbatim>\<open>MathBox\<close>, dispatched on the class of the box.\<close>

definition styled_formula :: "Env \<Rightarrow> MathBox \<Rightarrow> string" where
  "styled_formula env b =
     (case dialect b of
        TeXBox \<Rightarrow> TeXBox_styled_formula env b
      | MathMLBox \<Rightarrow> MathMLBox_styled_formula env b
      | AsciiBox \<Rightarrow> AsciiBox_styled_formula env b)"

definition to_svg :: "Env \<Rightarrow> MathBox \<Rightarrow> error + SVGSVGElement option" where
  "to_svg env b =
     (case dialect b of
        TeXBox \<Rightarrow> TeXBox_to_svg env b
      | MathMLBox \<Rightarrow> MathMLBox_to_svg env b
      | AsciiBox \<Rightarrow> AsciiBox_to_svg env b)"

subsection \<open>Measuring: \<^verbatim>\<open>svg_size\<close> and \<^verbatim>\<open>_size\<close>\<close>

text \<open>
  The loop \<^verbatim>\<open>svg_styles.forEach(...)\<close> that fills \<^verbatim>\<open>rulesMap\<close>. A property with a
  non-empty rule and no colon has \<^verbatim>\<open>value === undefined\<close>, and \<^verbatim>\<open>value.trim()\<close> throws.
\<close>

fun rules_map :: "string list \<Rightarrow> (string \<rightharpoonup> string) \<Rightarrow> error + (string \<rightharpoonup> string)" where
  "rules_map [] m = Inr m"
| "rules_map (property # rest) m =
     (case split (CHR '':'') property of
        [] \<Rightarrow> rules_map rest m
      | rule # vs \<Rightarrow>
          if rule = [] then rules_map rest m
          else (case vs of
                  [] \<Rightarrow> Inl TypeError
                | v # _ \<Rightarrow> rules_map rest (m(trim rule \<mapsto> trim v))))"

text \<open>\<^verbatim>\<open>parseFloat(el.getAttribute(name)?.replace(/([A-z])/g, "") ?? "0")\<close>\<close>

definition attribute_number :: "Env \<Rightarrow> SVGSVGElement \<Rightarrow> string \<Rightarrow> real" where
  "attribute_number env el name =
     parseFloat env (case getAttribute el name of None \<Rightarrow> ''0'' | Some a \<Rightarrow> strip_A_to_z a)"

text \<open>
  The block of \<^verbatim>\<open>svg_size\<close> that reads the style attribute: the parsed length of the
  rule \<^verbatim>\<open>vertical-align\<close>, as \<^verbatim>\<open>parse_css_length(rulesMap.get("vertical-align"))\<close>.
\<close>

definition vertical_align :: "Env \<Rightarrow> string \<Rightarrow> error + css_length option" where
  "vertical_align env style =
     (case rules_map (split (CHR '';'') style) Map.empty of
        Inl e \<Rightarrow> Inl e
      | Inr rulesMap \<Rightarrow> parse_css_length env (rulesMap ''vertical-align''))"

text \<open>
  The method \<^verbatim>\<open>svg_size()\<close>: the measured size or the exception, and the box it leaves
  (only \<open>valign\<close> can differ). An attribute read on a missing first child throws.
\<close>

definition svg_size :: "Env \<Rightarrow> MathBox \<Rightarrow> (error + Size) \<times> MathBox" where
  "svg_size env b =
     (case MathJax (provider env) of
        None \<Rightarrow> (Inr \<lparr>width = 13, height = 13\<rparr>, b)
      | Some mj \<Rightarrow>
          (case to_svg env b of
             Inl e \<Rightarrow> (Inl e, b)
           | Inr None \<Rightarrow> (Inl TypeError, b)
           | Inr (Some svg_element) \<Rightarrow>
               (let fmetrics = font_metrics env (font b);
                    heightEx = attribute_number env svg_element ''height'';
                    widthEx = attribute_number env svg_element ''width'';
                    result = \<lparr>width = x_height fmetrics * widthEx,
                              height = x_height fmetrics * heightEx\<rparr>
                in case getAttribute svg_element ''style'' of
                     None \<Rightarrow> (Inr result, b)
                   | Some style \<Rightarrow>
                       (case vertical_align env style of
                          Inl e \<Rightarrow> (Inl e, b)
                        | Inr None \<Rightarrow> (Inr result, b)
                        | Inr (Some (v, unit)) \<Rightarrow>
                            if unit = ''ex'' then
                              (Inr result, b\<lparr>valign := v * x_height fmetrics\<rparr>)
                            else if unit = ''px'' then
                              (Inr result, b\<lparr>valign := v\<rparr>)
                            else (Inr result, b)))))"

text \<open>\<^verbatim>\<open>this.width?.unit == "%" ? this.width.value : 1\<close>\<close>

definition percent_scale :: "css_length option \<Rightarrow> real" where
  "percent_scale c = (case c of None \<Rightarrow> 1 | Some (v, unit) \<Rightarrow> if unit = ''%'' then v else 1)"

text \<open>
  The method \<^verbatim>\<open>_size()\<close>, named \<open>MathBox_size\<close> since a name cannot begin with an
  underscore: the size, and the box as \<^verbatim>\<open>svg_size()\<close> left it.
\<close>

definition MathBox_size :: "Env \<Rightarrow> MathBox \<Rightarrow> (error + Size) \<times> MathBox" where
  "MathBox_size env b =
     (case MathJax (provider env) of
        None \<Rightarrow> (Inr \<lparr>width = 13, height = 13\<rparr>, b)
      | Some mj \<Rightarrow>
          (let fmetrics = font_metrics env (font b) in
           case svg_size env b of
             (Inl e, b') \<Rightarrow> (Inl e, b')
           | (Inr sz, b') \<Rightarrow>
               (let h = max (height sz) (metrics_height fmetrics);
                    w_scale = percent_scale (box_width b');
                    h_scale = percent_scale (box_height b')
                in (Inr \<lparr>width = width sz * w_scale, height = h * h_scale\<rparr>, b'))))"

subsection \<open>Positioning: \<^verbatim>\<open>_computed_position\<close>\<close>

text \<open>The two closures of \<^verbatim>\<open>_computed_position\<close>: what is subtracted from \<^verbatim>\<open>sx\<close> and \<^verbatim>\<open>sy\<close>.\<close>

definition x_offset :: "x_keyword anchor \<Rightarrow> real \<Rightarrow> real" where
  "x_offset a w =
     (case a of
        Number n \<Rightarrow> n * w
      | Keyword X_left \<Rightarrow> 0
      | Keyword X_center \<Rightarrow> 0.5 * w
      | Keyword X_right \<Rightarrow> w)"

definition y_offset :: "y_keyword anchor \<Rightarrow> real \<Rightarrow> FontMetrics \<Rightarrow> real \<Rightarrow> real" where
  "y_offset a h metrics va =
     (case a of
        Number n \<Rightarrow> n * h
      | Keyword Y_top \<Rightarrow>
          if metrics_height metrics > h
          then h - (- va - descent metrics) - metrics_height metrics
          else 0
      | Keyword Y_center \<Rightarrow> 0.5 * h
      | Keyword Y_bottom \<Rightarrow>
          if metrics_height metrics > h
          then h + descent metrics + va
          else h
      | Keyword Y_baseline \<Rightarrow> 0.5 * h)"

text \<open>
  \<^verbatim>\<open>const {sx, sy, x_anchor=this._x_anchor, y_anchor=this._y_anchor} = this.position\<close>:
  the anchor of the position, or the box's own when the position has none.
\<close>

definition resolved_x_anchor :: "MathBox \<Rightarrow> x_keyword anchor" where
  "resolved_x_anchor b =
     (case x_anchor (position b) of None \<Rightarrow> Keyword (box_x_anchor b) | Some a \<Rightarrow> a)"

definition resolved_y_anchor :: "MathBox \<Rightarrow> y_keyword anchor" where
  "resolved_y_anchor b =
     (case y_anchor (position b) of None \<Rightarrow> Keyword (box_y_anchor b) | Some a \<Rightarrow> a)"

text \<open>The method \<^verbatim>\<open>_computed_position()\<close>: the pair \<open>(x, y)\<close>, and the box as \<^verbatim>\<open>_size()\<close> left it.\<close>

definition computed_position :: "Env \<Rightarrow> MathBox \<Rightarrow> (error + real \<times> real) \<times> MathBox" where
  "computed_position env b =
     (case MathBox_size env b of
        (Inl e, b') \<Rightarrow> (Inl e, b')
      | (Inr sz, b') \<Rightarrow>
          (let p = position b';
               metrics = font_metrics env (font b');
               x = sx p - x_offset (resolved_x_anchor b') (width sz);
               y = sy p - y_offset (resolved_y_anchor b') (height sz) metrics (valign b')
           in (Inr (x, y), b')))"

subsection \<open>Painting\<close>

text \<open>
  The drawing surface is the sequence of the calls made on it, the latest last; the
  compositor's \<^verbatim>\<open>draw()\<close>, when it returns, is the entry \<open>Draw\<close>.
\<close>

datatype ctx_op =
    Save
  | Restore
  | Translate real real
  | Rotate real
  | Set_fillStyle string
  | Set_font string
  | Set_textAlign string
  | Set_textBaseline string
  | FillText string real real
  | Draw "SVGSVGElement option" Size

type_synonym Context2d = "ctx_op list"

text \<open>
  The body of the \<^verbatim>\<open>try\<close> block of \<^verbatim>\<open>paint\<close>: the exception it ends with, if any, the
  box and the surface it leaves. Reading \<^verbatim>\<open>MathJaxCanvas\<close> off a missing module throws
  before the arguments of the constructor are evaluated.
\<close>

definition paint_try ::
  "Env \<Rightarrow> MathBox \<Rightarrow> real \<times> real \<Rightarrow> Context2d \<Rightarrow> error option \<times> MathBox \<times> Context2d" where
  "paint_try env b xy ctx =
     (case MathJax (provider env) of
        None \<Rightarrow> (Some TypeError, b, ctx)
      | Some mj \<Rightarrow>
          (case to_svg env b of
             Inl e \<Rightarrow> (Some e, b, ctx)
           | Inr svg \<Rightarrow>
               (case svg_size env b of
                  (Inl e, b') \<Rightarrow> (Some e, b', ctx)
                | (Inr sz, b') \<Rightarrow>
                    (case MathJaxCanvas_new mj svg sz of
                       Some e \<Rightarrow> (Some e, b', ctx)
                     | None \<Rightarrow>
                         (let ctx' = ctx @ [Translate (fst xy) (snd xy)] in
                          case MathJaxCanvas_draw mj svg sz of
                            Some e \<Rightarrow> (Some e, b', ctx')
                          | None \<Rightarrow> (None, b', ctx' @ [Draw svg sz]))))))"

text \<open>
  \<^verbatim>\<open>paint(ctx)\<close>: \<open>Some e\<close> when the call ends with the exception \<open>e\<close>, the box and the
  surface as the call leaves them. (\<^verbatim>\<open>console.error\<close> is not part of the surface.)
\<close>

definition paint :: "Env \<Rightarrow> MathBox \<Rightarrow> Context2d \<Rightarrow> error option \<times> MathBox \<times> Context2d" where
  "paint env b ctx =
     (let ctx1 = ctx @ [Save];
          p = position b;
          a = angle b
      in case computed_position env b of
           (Inl e, b1) \<Rightarrow> (Some e, b1, ctx1)
         | (Inr (x, y), b1) \<Rightarrow>
             (let ctx2 =
                    (case a of
                       None \<Rightarrow> ctx1
                     | Some t \<Rightarrow>
                         if t \<noteq> 0
                         then ctx1 @ [Translate (sx p) (sy p), Rotate t, Translate (- sx p) (- sy p)]
                         else ctx1)
              in case paint_try env b1 (x, y) ctx2 of
                   (None, b2, ctx3) \<Rightarrow> (None, b2, ctx3 @ [Restore])
                 | (Some e, b2, ctx3) \<Rightarrow>
                     (None, b2,
                      ctx3 @
                      [Set_fillStyle (color b2),
                       Set_font (font b2),
                       Set_textAlign ''left'',
                       Set_textBaseline ''alphabetic'',
                       FillText (box_text b2) x (y + ascent (font_metrics env (font b2))),
                       Restore])))"

text \<open>
  Names for two runs of calls that \<^verbatim>\<open>paint\<close> makes, used to state its properties: the
  rotation about the caret, and the plain text of the \<^verbatim>\<open>catch\<close> block drawn at \<open>xy\<close>.
\<close>

definition rotation_ops :: "MathBox \<Rightarrow> ctx_op list" where
  "rotation_ops b =
     (case angle b of
        None \<Rightarrow> []
      | Some t \<Rightarrow>
          if t \<noteq> 0
          then [Translate (sx (position b)) (sy (position b)), Rotate t,
                Translate (- sx (position b)) (- sy (position b))]
          else [])"

definition fallback_ops :: "Env \<Rightarrow> MathBox \<Rightarrow> real \<times> real \<Rightarrow> ctx_op list" where
  "fallback_ops env b xy =
     [Set_fillStyle (color b), Set_font (font b), Set_textAlign ''left'',
      Set_textBaseline ''alphabetic'',
      FillText (box_text b) (fst xy) (snd xy + ascent (font_metrics env (font b)))]"

subsection \<open>The setter \<^verbatim>\<open>visuals\<close>\<close>

text \<open>The argument of the setter, \<^verbatim>\<open>visuals.Text["Values"]\<close>.\<close>

record Text_Values =
  text_color :: Color
  text_alpha :: real
  text_font_style :: string
  text_font_size :: string
  text_font :: string
  text_align :: x_keyword
  text_baseline :: string

text \<open>
  What the setter does to a parsed font size \<^verbatim>\<open>{value, unit}\<close>, before it is printed:
  \<^verbatim>\<open>value *= font_size_scale; if (unit == "em" && _base_font_size) {value *= _base_font_size; unit = "px"}\<close>.
  A number is truthy when it is not zero.
\<close>

definition scaled_font_size :: "MathBox \<Rightarrow> css_length \<Rightarrow> css_length" where
  "scaled_font_size b res =
     (case res of
        (v, unit) \<Rightarrow>
          (let v1 = v * font_size_scale b in
           if unit = ''em'' \<and> base_font_size b \<noteq> 0
           then (v1 * base_font_size b, ''px'')
           else (v1, unit)))"

text \<open>The setter \<^verbatim>\<open>set visuals(v)\<close>: the box after the assignment.\<close>

definition set_visuals :: "Env \<Rightarrow> Text_Values \<Rightarrow> MathBox \<Rightarrow> MathBox" where
  "set_visuals env v b =
     (let size0 = text_font_size v;
          size1 =
            (case parse_css_font_size env size0 of
               None \<Rightarrow> size0
             | Some res \<Rightarrow>
                 (case scaled_font_size b res of
                    (v', unit') \<Rightarrow> number_to_string env v' @ unit'));
          baseline = text_baseline v
      in b\<lparr>font := text_font_style v @ '' '' @ size1 @ '' '' @ text_font v,
            color := color2css env (text_color v) (text_alpha v),
            box_x_anchor := text_align v,
            box_y_anchor :=
              (if baseline = ''top'' then Y_top
               else if baseline = ''middle'' then Y_center
               else if baseline = ''bottom'' then Y_bottom
               else Y_baseline)\<rparr>)"

subsection \<open>Loading the provider\<close>

text \<open>
  Modelled from the spec: \<^verbatim>\<open>MathJaxProvider.fetch\<close> of \<^verbatim>\<open>models/text/providers\<close> is not
  among the sources. The first load request moves \<open>not_started\<close> to \<open>loading\<close>; when the
  asynchronous fetch of the engine settles, \<open>loading\<close> becomes \<open>loaded\<close> (and the handle
  is there) on success and \<open>failed\<close> on error. \<open>outcome\<close> is how the fetch settles:
  the engine, or \<open>None\<close> for an error.
\<close>

definition fetch_begin :: "MathJaxProvider \<Rightarrow> MathJaxProvider" where
  "fetch_begin p = p\<lparr>status := loading, fetches := fetches p + 1\<rparr>"

definition fetch_settle :: "MathJaxModule option \<Rightarrow> MathJaxProvider \<Rightarrow> MathJaxProvider" where
  "fetch_settle outcome p =
     (case outcome of
        Some mj \<Rightarrow> p\<lparr>status := loaded, MathJax := Some mj\<rparr>
      | None \<Rightarrow> p\<lparr>status := failed\<rparr>)"

text \<open>The provider when the promise of \<^verbatim>\<open>fetch()\<close> is settled.\<close>

definition fetch :: "MathJaxModule option \<Rightarrow> MathJaxProvider \<Rightarrow> MathJaxProvider" where
  "fetch outcome p = fetch_settle outcome (fetch_begin p)"

text \<open>
  \<^verbatim>\<open>async load_provider()\<close>: the provider at the moment the promise it returns is
  settled. Only under \<open>not_started\<close> does the body reach its \<^verbatim>\<open>await\<close>; otherwise it
  runs to its end at once and the provider is as it was.
\<close>

definition load_provider :: "MathJaxModule option \<Rightarrow> MathJaxProvider \<Rightarrow> MathJaxProvider" where
  "load_provider outcome p = (if status p = not_started then fetch outcome p else p)"

text \<open>
  Modelled from the spec: the provider holds "a handle to its conversion API once
  loaded", so a handle is there only under the status \<open>loaded\<close>.
\<close>

definition handle_once_loaded :: "MathJaxProvider \<Rightarrow> bool" where
  "handle_once_loaded p = (MathJax p = None \<or> status p = loaded)"

subsection \<open>Example values\<close>

text \<open>
  A font with line height 30, descent 4 and x-height 1; engines that return a fixed
  container or throw; an environment around a given provider state, whose parsers and
  formatters are tables that agree with JavaScript on the strings and numbers of the
  examples; and a box.
\<close>

definition example_metrics :: FontMetrics where
  "example_metrics = \<lparr>ascent = 10, descent = 4, metrics_height = 30, x_height = 1\<rparr>"

definition engine_returning :: "SVGSVGElement list \<Rightarrow> MathJaxModule" where
  "engine_returning children =
     \<lparr>tex2svg = (\<lambda>formula em ex. Inr children),
      mathml2svg = (\<lambda>formula em ex. Inr children),
      MathJaxCanvas_new = (\<lambda>svg sz. None),
      MathJaxCanvas_draw = (\<lambda>svg sz. None)\<rparr>"

definition engine_throwing :: MathJaxModule where
  "engine_throwing =
     \<lparr>tex2svg = (\<lambda>formula em ex. Inl (EngineError ''conversion failed'')),
      mathml2svg = (\<lambda>formula em ex. Inl (EngineError ''conversion failed'')),
      MathJaxCanvas_new = (\<lambda>svg sz. None),
      MathJaxCanvas_draw = (\<lambda>svg sz. None)\<rparr>"

definition example_env :: "provider_status \<Rightarrow> MathJaxModule option \<Rightarrow> Env" where
  "example_env st mj =
     \<lparr>provider = \<lparr>status = st, MathJax = mj, fetches = 1\<rparr>,
      font_metrics = (\<lambda>f. example_metrics),
      parse_css_font_size = (\<lambda>s. if s = ''1em'' then Some (1, ''em'') else None),
      parse_css_length =
        (\<lambda>s. if s = Some ''2px'' then Inr (Some (2, ''px''))
             else if s = Some ''2em'' then Inr (Some (2, ''em''))
             else Inr None),
      color2css = (\<lambda>c a. c),
      color2hexrgb = (\<lambda>c. ''#ff0000''),
      color2rgba = (\<lambda>c. (255, 0, 0, 1)),
      parseFloat = (\<lambda>s. if s = ''40'' then 40 else if s = ''10'' then 10 else 0),
      number_to_string = (\<lambda>r. if r = 26 then ''26'' else if r = 13 then ''13'' else ''0'')\<rparr>"

definition example_box :: "dialect \<Rightarrow> string \<Rightarrow> MathBox" where
  "example_box d t =
     \<lparr>dialect = d, font = ''normal 13px sans'', color = ''#ff0000'', box_text = t, valign = 2,
      position = \<lparr>sx = 100, sy = 50, x_anchor = None, y_anchor = None\<rparr>,
      angle = None, box_width = None, box_height = None,
      base_font_size = 13, font_size_scale = 1,
      box_x_anchor = X_left, box_y_anchor = Y_top\<rparr>"

text \<open>Two vector graphics: one shorter and one taller than a line of the example font.\<close>

definition short_svg :: SVGSVGElement where
  "short_svg = [(''width'', ''40ex''), (''height'', ''10ex'')]"

definition tall_svg :: SVGSVGElement where
  "tall_svg = [(''width'', ''10ex''), (''height'', ''40ex''), (''style'', ''vertical-align: 2px;'')]"

text \<open>A vector graphic whose vertical alignment is given in \<^verbatim>\<open>em\<close>.\<close>

definition em_svg :: SVGSVGElement where
  "em_svg = [(''width'', ''10ex''), (''height'', ''40ex''), (''style'', ''vertical-align: 2em'')]"

text \<open>The visuals of a text whose font size is one \<^verbatim>\<open>em\<close>.\<close>

definition example_visuals :: Text_Values where
  "example_visuals =
     \<lparr>text_color = ''#ff0000'', text_alpha = 1, text_font_style = ''normal'',
      text_font_size = ''1em'', text_font = ''sans'', text_align = X_left,
      text_baseline = ''top''\<rparr>"

text \<open>Providers before the first load request and while the engine is being fetched.\<close>

definition fresh_provider :: MathJaxProvider where
  "fresh_provider = \<lparr>status = not_started, MathJax = None, fetches = 0\<rparr>"

definition loading_provider :: MathJaxProvider where
  "loading_provider = \<lparr>status = loading, MathJax = None, fetches = 1\<rparr>"

section \<open>Properties\<close>

subsection \<open>What a size computation changes\<close>

lemmas example_defs = example_env_def example_box_def example_metrics_def engine_returning_def
  engine_throwing_def

lemma valign_self_update: "\<exists>va. (b::MathBox) = b\<lparr>valign := va\<rparr>"
  by (rule exI [of _ "valign b"]) simp

lemma svg_size_changes_valign_only:
  "\<exists>va. snd (svg_size env b) = b\<lparr>valign := va\<rparr>"
  unfolding svg_size_def Let_def
  by (auto simp: valign_self_update split: option.splits sum.splits prod.splits)

lemma svg_size_not_loaded:
  "MathJax (provider env) = None \<Longrightarrow> svg_size env b = (Inr \<lparr>width = 13, height = 13\<rparr>, b)"
  by (simp add: svg_size_def)

lemma MathBox_size_not_loaded:
  "MathJax (provider env) = None \<Longrightarrow> MathBox_size env b = (Inr \<lparr>width = 13, height = 13\<rparr>, b)"
  by (simp add: MathBox_size_def)

lemma MathBox_size_loaded:
  assumes "MathJax (provider env) = Some mj" and "svg_size env b = (Inr sz, b')"
  shows "MathBox_size env b =
    (Inr \<lparr>width = width sz * percent_scale (box_width b'),
          height = max (height sz) (metrics_height (font_metrics env (font b))) *
                   percent_scale (box_height b')\<rparr>, b')"
  using assms by (simp add: MathBox_size_def Let_def)

lemma svg_size_keeps:
  assumes "svg_size env b = (r, b')"
  shows "box_height b' = box_height b" and "box_width b' = box_width b"
    and "font b' = font b" and "position b' = position b"
    and "box_x_anchor b' = box_x_anchor b" and "box_y_anchor b' = box_y_anchor b"
    and "color b' = color b" and "box_text b' = box_text b" and "angle b' = angle b"
proof -
  obtain va where "snd (svg_size env b) = b\<lparr>valign := va\<rparr>"
    using svg_size_changes_valign_only by blast
  with assms have b': "b' = b\<lparr>valign := va\<rparr>" by simp
  show "box_height b' = box_height b" and "box_width b' = box_width b"
    and "font b' = font b" and "position b' = position b"
    and "box_x_anchor b' = box_x_anchor b" and "box_y_anchor b' = box_y_anchor b"
    and "color b' = color b" and "box_text b' = box_text b" and "angle b' = angle b"
    by (simp_all add: b')
qed

lemma MathBox_size_keeps:
  assumes "MathBox_size env b = (r, b')"
  shows "font b' = font b" and "position b' = position b"
    and "box_x_anchor b' = box_x_anchor b" and "box_y_anchor b' = box_y_anchor b"
    and "color b' = color b" and "box_text b' = box_text b" and "angle b' = angle b"
proof -
  have "b' = b \<or> b' = snd (svg_size env b)"
    using assms by (auto simp: MathBox_size_def Let_def split: option.splits sum.splits prod.splits)
  then show "font b' = font b" and "position b' = position b"
    and "box_x_anchor b' = box_x_anchor b" and "box_y_anchor b' = box_y_anchor b"
    and "color b' = color b" and "box_text b' = box_text b" and "angle b' = angle b"
    using svg_size_keeps [of env b "fst (svg_size env b)" "snd (svg_size env b)"]
    by auto
qed

text \<open>The size does not depend on the position of the box nor on its vertical anchor.\<close>

lemma styled_formula_anchor_independent:
  "TeXBox_styled_formula env (b\<lparr>position := p, box_y_anchor := k\<rparr>) = TeXBox_styled_formula env b"
  "MathMLBox_styled_formula env (b\<lparr>position := p, box_y_anchor := k\<rparr>) = MathMLBox_styled_formula env b"
  "AsciiBox_styled_formula env (b\<lparr>position := p, box_y_anchor := k\<rparr>) = AsciiBox_styled_formula env b"
  by (simp_all add: TeXBox_styled_formula_def MathMLBox_styled_formula_def
      AsciiBox_styled_formula_def mstyle_open_def Let_def split: option.splits prod.splits)

lemma to_svg_anchor_independent:
  "to_svg env (b\<lparr>position := p, box_y_anchor := k\<rparr>) = to_svg env b"
  by (simp add: to_svg_def TeXBox_to_svg_def MathMLBox_to_svg_def AsciiBox_to_svg_def
      styled_formula_anchor_independent split: dialect.splits option.splits)

lemma svg_size_anchor_independent:
  "svg_size env (b\<lparr>position := p, box_y_anchor := k\<rparr>) =
     (fst (svg_size env b), (snd (svg_size env b))\<lparr>position := p, box_y_anchor := k\<rparr>)"
  by (simp add: svg_size_def to_svg_anchor_independent Let_def
      split: option.splits sum.splits prod.splits)

lemma MathBox_size_anchor_independent:
  "MathBox_size env (b\<lparr>position := p, box_y_anchor := k\<rparr>) =
     (fst (MathBox_size env b), (snd (MathBox_size env b))\<lparr>position := p, box_y_anchor := k\<rparr>)"
  by (simp add: MathBox_size_def svg_size_anchor_independent Let_def
      split: option.splits sum.splits prod.splits)

lemma computed_position_anchor:
  "fst (computed_position env (b\<lparr>position := p, box_y_anchor := k\<rparr>)) =
     (case fst (MathBox_size env b) of
        Inl e \<Rightarrow> Inl e
      | Inr sz \<Rightarrow>
          Inr (sx p - x_offset (case x_anchor p of None \<Rightarrow> Keyword (box_x_anchor b) | Some a \<Rightarrow> a) (width sz),
               sy p - y_offset (case y_anchor p of None \<Rightarrow> Keyword k | Some a \<Rightarrow> a) (height sz)
                        (font_metrics env (font b)) (valign (snd (MathBox_size env b)))))"
proof -
  obtain r b' where sz: "MathBox_size env b = (r, b')" by (cases "MathBox_size env b")
  show ?thesis
    using MathBox_size_keeps [OF sz]
    by (cases r) (simp_all add: computed_position_def MathBox_size_anchor_independent sz Let_def
        resolved_y_anchor_def resolved_x_anchor_def split: option.splits)
qed

text \<open>The example graphics, measured.\<close>

lemma example_svg_size:
  "svg_size (example_env loaded (Some (engine_returning [short_svg]))) (example_box TeXBox ''x^2'')
   = (Inr \<lparr>width = 40, height = 10\<rparr>, example_box TeXBox ''x^2'')"
  by (simp add: svg_size_def to_svg_def TeXBox_to_svg_def first_child_def attribute_number_def
      getAttribute_def strip_A_to_z_def example_defs short_svg_def)

lemma example_svg_size_pct:
  "svg_size (example_env loaded (Some (engine_returning [short_svg])))
     ((example_box TeXBox ''x^2'')\<lparr>box_height := Some (0.5, ''%'')\<rparr>)
   = (Inr \<lparr>width = 40, height = 10\<rparr>, (example_box TeXBox ''x^2'')\<lparr>box_height := Some (0.5, ''%'')\<rparr>)"
  by (simp add: svg_size_def to_svg_def TeXBox_to_svg_def first_child_def attribute_number_def
      getAttribute_def strip_A_to_z_def example_defs short_svg_def)

lemma example_tall_size:
  "MathBox_size (example_env loaded (Some (engine_returning [tall_svg])))
     ((example_box TeXBox ''x^2'')\<lparr>box_height := Some (0.5, ''%''), box_y_anchor := k\<rparr>)
   = (Inr \<lparr>width = 10, height = 20\<rparr>,
      (example_box TeXBox ''x^2'')\<lparr>box_height := Some (0.5, ''%''), box_y_anchor := k\<rparr>)"
  by (simp add: MathBox_size_def svg_size_def to_svg_def TeXBox_to_svg_def first_child_def
      attribute_number_def getAttribute_def strip_A_to_z_def vertical_align_def trim_def
      is_space_def percent_scale_def example_defs tall_svg_def)

subsection \<open>While the provider has no handle\<close>


lemma paint_try_not_loaded:
  "MathJax (provider env) = None \<Longrightarrow> paint_try env b xy ctx = (Some TypeError, b, ctx)"
  by (simp add: paint_try_def)

subsection \<open>The placeholder size\<close>

text \<open>
  C2. While the provider's status is \<open>not_started\<close> or \<open>failed\<close>, \<^verbatim>\<open>_size()\<close> returns exactly
  \<^verbatim>\<open>{width: 13, height: 13}\<close>, whatever the formula text, the font, the colour and the
  declared width and height of the box, and leaves the box as it is. The method tests
  the handle \<^verbatim>\<open>provider.MathJax\<close>; that the handle is there only under the status
  \<open>loaded\<close> is the provider's contract (\<open>handle_once_loaded\<close>).
\<close>

theorem size_placeholder_when_not_loaded:
  assumes "handle_once_loaded (provider env)"
    and "status (provider env) = not_started \<or> status (provider env) = failed"
  shows "MathBox_size env b = (Inr \<lparr>width = 13, height = 13\<rparr>, b)"
proof -
  from assms have "MathJax (provider env) = None"
    by (auto simp: handle_once_loaded_def)
  then show ?thesis by (rule MathBox_size_not_loaded)
qed

theorem size_placeholder_when_not_loaded_witness:
  "handle_once_loaded (provider (example_env failed None)) \<and>
   status (provider (example_env failed None)) = failed \<and>
   MathBox_size (example_env failed None) (example_box TeXBox ''x^2'') =
     (Inr \<lparr>width = 13, height = 13\<rparr>, example_box TeXBox ''x^2'')"
proof -
  have h1: "handle_once_loaded (provider (example_env failed None))"
    by (simp add: handle_once_loaded_def example_env_def)
  have h2: "status (provider (example_env failed None)) = not_started \<or>
            status (provider (example_env failed None)) = failed"
    by (simp add: example_env_def)
  show ?thesis
    using size_placeholder_when_not_loaded [OF h1 h2] h1 by (simp add: example_env_def)
qed

subsection \<open>The height of a short formula\<close>

text \<open>
  C3 (as amended). With the provider loaded, when the measured height of the vector graphic
  (its declared height in ex units times the x-height of the font, the height that
  \<^verbatim>\<open>svg_size()\<close> returns) is less than the line height \<^verbatim>\<open>font_metrics(font).height\<close>,
  \<^verbatim>\<open>_size()\<close> returns that line height times the height scale of the box: the value of
  the declared height when its unit is \<^verbatim>\<open>%\<close>, and 1 otherwise. So the height is exactly
  one line of the font when the box declares no percentage height.
\<close>

theorem size_height_one_line:
  assumes "MathJax (provider env) = Some mj"
    and "svg_size env b = (Inr sz, b')"
    and "height sz < metrics_height (font_metrics env (font b))"
  shows "MathBox_size env b =
    (Inr \<lparr>width = width sz * percent_scale (box_width b),
          height = metrics_height (font_metrics env (font b)) * percent_scale (box_height b)\<rparr>,
     b')"
  using assms(3) MathBox_size_loaded [OF assms(1,2)] svg_size_keeps(1,2) [OF assms(2)]
  by (simp add: max_def)

theorem size_height_one_line_witness:
  "MathJax (provider (example_env loaded (Some (engine_returning [short_svg])))) =
     Some (engine_returning [short_svg]) \<and>
   svg_size (example_env loaded (Some (engine_returning [short_svg]))) (example_box TeXBox ''x^2'') =
     (Inr \<lparr>width = 40, height = 10\<rparr>, example_box TeXBox ''x^2'') \<and>
   MathBox_size (example_env loaded (Some (engine_returning [short_svg]))) (example_box TeXBox ''x^2'') =
     (Inr \<lparr>width = 40, height = 30\<rparr>, example_box TeXBox ''x^2'')"
proof -
  let ?env = "example_env loaded (Some (engine_returning [short_svg]))"
  let ?b = "example_box TeXBox ''x^2''"
  have h1: "MathJax (provider ?env) = Some (engine_returning [short_svg])"
    by (simp add: example_env_def)
  have h3: "height \<lparr>width = 40, height = 10\<rparr> < metrics_height (font_metrics ?env (font ?b))"
    by (simp add: example_defs)
  show ?thesis
    using size_height_one_line [OF h1 example_svg_size h3] h1 example_svg_size
    by (simp add: example_defs percent_scale_def)
qed

text \<open>
  C3 as stated fails for a box that declares a percentage height: the graphic measures
  10, a line of the font 30, the declared height is \<^verbatim>\<open>{value: 0.5, unit: "%"}\<close>, and
  \<^verbatim>\<open>_size()\<close> returns the height 15, half a line.
\<close>

theorem size_height_percent_counterexample:
  "fst (svg_size (example_env loaded (Some (engine_returning [short_svg])))
         ((example_box TeXBox ''x^2'')\<lparr>box_height := Some (0.5, ''%'')\<rparr>)) =
     Inr \<lparr>width = 40, height = 10\<rparr> \<and>
   metrics_height (font_metrics (example_env loaded (Some (engine_returning [short_svg])))
      (font ((example_box TeXBox ''x^2'')\<lparr>box_height := Some (0.5, ''%'')\<rparr>))) = 30 \<and>
   fst (MathBox_size (example_env loaded (Some (engine_returning [short_svg])))
         ((example_box TeXBox ''x^2'')\<lparr>box_height := Some (0.5, ''%'')\<rparr>)) =
     Inr \<lparr>width = 40, height = 15\<rparr>"
proof -
  let ?env = "example_env loaded (Some (engine_returning [short_svg]))"
  have h1: "MathJax (provider ?env) = Some (engine_returning [short_svg])"
    by (simp add: example_env_def)
  show ?thesis
    using MathBox_size_loaded [OF h1 example_svg_size_pct] example_svg_size_pct
    by (simp add: example_defs percent_scale_def)
qed

subsection \<open>The vertical offsets of the anchors \<^verbatim>\<open>top\<close> and \<^verbatim>\<open>bottom\<close>\<close>

text \<open>
  C4. In \<^verbatim>\<open>_computed_position()\<close>, where \<open>sz\<close> is what \<^verbatim>\<open>_size()\<close> returned and \<open>b'\<close> the
  box it left (so \<open>valign b'\<close> is the field \<^verbatim>\<open>valign\<close> as the method reads it): with the
  anchor \<^verbatim>\<open>top\<close>, what is subtracted from \<^verbatim>\<open>sy\<close> is
  \<^verbatim>\<open>height - (-valign - descent) - font_metrics(font).height\<close> if the line height of the font
  exceeds the height of the box, and 0 otherwise; with the anchor \<^verbatim>\<open>bottom\<close> it is
  \<^verbatim>\<open>height + descent + valign\<close> in the first case and the height in the second.
\<close>

theorem top_and_bottom_offsets:
  assumes "MathBox_size env b = (Inr sz, b')"
  shows "(resolved_y_anchor b = Keyword Y_top \<longrightarrow>
            computed_position env b =
              (Inr (sx (position b) - x_offset (resolved_x_anchor b) (width sz),
                    sy (position b) -
                      (if metrics_height (font_metrics env (font b)) > height sz
                       then height sz - (- valign b' - descent (font_metrics env (font b))) -
                            metrics_height (font_metrics env (font b))
                       else 0)), b')) \<and>
         (resolved_y_anchor b = Keyword Y_bottom \<longrightarrow>
            computed_position env b =
              (Inr (sx (position b) - x_offset (resolved_x_anchor b) (width sz),
                    sy (position b) -
                      (if metrics_height (font_metrics env (font b)) > height sz
                       then height sz + descent (font_metrics env (font b)) + valign b'
                       else height sz)), b'))"
proof -
  have "resolved_y_anchor b' = resolved_y_anchor b" "resolved_x_anchor b' = resolved_x_anchor b"
    "font b' = font b" "position b' = position b"
    using MathBox_size_keeps [OF assms]
    by (simp_all add: resolved_y_anchor_def resolved_x_anchor_def split: option.splits)
  then show ?thesis
    using assms by (simp add: computed_position_def y_offset_def Let_def)
qed

text \<open>
  The example of the specification: height 20, line height 30, \<^verbatim>\<open>valign\<close> 2 and descent 4
  give the offset \<open>20 - (-2 - 4) - 30 = -4\<close> for \<^verbatim>\<open>top\<close>, and \<open>20 + 4 + 2\<close> for \<^verbatim>\<open>bottom\<close>.
\<close>

theorem top_and_bottom_offsets_witness:
  "MathBox_size (example_env loaded (Some (engine_returning [tall_svg])))
     ((example_box TeXBox ''x^2'')\<lparr>box_height := Some (0.5, ''%''), box_y_anchor := Y_top\<rparr>)
   = (Inr \<lparr>width = 10, height = 20\<rparr>,
      (example_box TeXBox ''x^2'')\<lparr>box_height := Some (0.5, ''%''), box_y_anchor := Y_top\<rparr>) \<and>
   computed_position (example_env loaded (Some (engine_returning [tall_svg])))
     ((example_box TeXBox ''x^2'')\<lparr>box_height := Some (0.5, ''%''), box_y_anchor := Y_top\<rparr>)
   = (Inr (100, 50 - (20 - (- 2 - 4) - 30)),
      (example_box TeXBox ''x^2'')\<lparr>box_height := Some (0.5, ''%''), box_y_anchor := Y_top\<rparr>) \<and>
   computed_position (example_env loaded (Some (engine_returning [tall_svg])))
     ((example_box TeXBox ''x^2'')\<lparr>box_height := Some (0.5, ''%''), box_y_anchor := Y_bottom\<rparr>)
   = (Inr (100, 50 - (20 + 4 + 2)),
      (example_box TeXBox ''x^2'')\<lparr>box_height := Some (0.5, ''%''), box_y_anchor := Y_bottom\<rparr>)"
  using top_and_bottom_offsets [OF example_tall_size [of Y_top]]
    top_and_bottom_offsets [OF example_tall_size [of Y_bottom]]
    example_tall_size [of Y_top]
  by (simp add: resolved_y_anchor_def resolved_x_anchor_def x_offset_def example_defs)

subsection \<open>The anchors \<^verbatim>\<open>baseline\<close> and \<^verbatim>\<open>center\<close>\<close>

text \<open>
  C9. \<^verbatim>\<open>_computed_position()\<close> returns the same result (coordinates or exception) for the
  anchor \<^verbatim>\<open>baseline\<close> as for the anchor \<^verbatim>\<open>center\<close>, be the anchor given by the position
  or be it the box's own; both subtract \<open>0.5 * height\<close> from \<^verbatim>\<open>sy\<close>.
\<close>

theorem baseline_same_as_center:
  "fst (computed_position env (b\<lparr>position := (position b)\<lparr>y_anchor := Some (Keyword Y_baseline)\<rparr>\<rparr>)) =
   fst (computed_position env (b\<lparr>position := (position b)\<lparr>y_anchor := Some (Keyword Y_center)\<rparr>\<rparr>)) \<and>
   fst (computed_position env (b\<lparr>position := (position b)\<lparr>y_anchor := None\<rparr>, box_y_anchor := Y_baseline\<rparr>)) =
   fst (computed_position env (b\<lparr>position := (position b)\<lparr>y_anchor := None\<rparr>, box_y_anchor := Y_center\<rparr>)) \<and>
   y_offset (Keyword Y_baseline) h metrics va = 0.5 * h \<and>
   y_offset (Keyword Y_center) h metrics va = 0.5 * h"
proof -
  have 1: "fst (computed_position env (b\<lparr>position := (position b)\<lparr>y_anchor := Some (Keyword Y_baseline)\<rparr>\<rparr>)) =
   fst (computed_position env (b\<lparr>position := (position b)\<lparr>y_anchor := Some (Keyword Y_center)\<rparr>\<rparr>))"
    using computed_position_anchor
        [where env = env and b = b and k = "box_y_anchor b"
           and p = "(position b)\<lparr>y_anchor := Some (Keyword Y_baseline)\<rparr>"]
      computed_position_anchor
        [where env = env and b = b and k = "box_y_anchor b"
           and p = "(position b)\<lparr>y_anchor := Some (Keyword Y_center)\<rparr>"]
    by (simp add: y_offset_def split: sum.splits)
  have 2: "fst (computed_position env (b\<lparr>position := (position b)\<lparr>y_anchor := None\<rparr>, box_y_anchor := Y_baseline\<rparr>)) =
   fst (computed_position env (b\<lparr>position := (position b)\<lparr>y_anchor := None\<rparr>, box_y_anchor := Y_center\<rparr>))"
    by (simp add: computed_position_anchor y_offset_def split: sum.splits)
  have 3: "y_offset (Keyword Y_baseline) h metrics va = 0.5 * h"
    "y_offset (Keyword Y_center) h metrics va = 0.5 * h"
    by (simp_all add: y_offset_def)
  from 1 2 3 show ?thesis by simp
qed

theorem baseline_same_as_center_witness:
  "fst (computed_position (example_env loaded (Some (engine_returning [tall_svg])))
         ((example_box TeXBox ''x^2'')
            \<lparr>position := \<lparr>sx = 100, sy = 50, x_anchor = None, y_anchor = Some (Keyword Y_baseline)\<rparr>\<rparr>)) =
     Inr (100, 50 - 0.5 * 40) \<and>
   fst (computed_position (example_env loaded (Some (engine_returning [tall_svg])))
         ((example_box TeXBox ''x^2'')
            \<lparr>position := \<lparr>sx = 100, sy = 50, x_anchor = None, y_anchor = Some (Keyword Y_center)\<rparr>\<rparr>)) =
     Inr (100, 50 - 0.5 * 40)"
proof -
  let ?env = "example_env loaded (Some (engine_returning [tall_svg]))"
  let ?b = "example_box TeXBox ''x^2''"
  have sz: "fst (MathBox_size ?env ?b) = Inr \<lparr>width = 10, height = 40\<rparr>"
    by (simp add: MathBox_size_def svg_size_def to_svg_def TeXBox_to_svg_def first_child_def
      attribute_number_def getAttribute_def strip_A_to_z_def vertical_align_def trim_def
      is_space_def percent_scale_def example_defs tall_svg_def)
  have c: "fst (computed_position ?env
         (?b\<lparr>position := \<lparr>sx = 100, sy = 50, x_anchor = None, y_anchor = Some (Keyword Y_center)\<rparr>\<rparr>)) =
     Inr (100, 50 - 0.5 * 40)"
    using computed_position_anchor [where env = ?env and b = ?b and k = Y_top
        and p = "\<lparr>sx = 100, sy = 50, x_anchor = None, y_anchor = Some (Keyword Y_center)\<rparr>"]
    apply (simp add: sz x_offset_def y_offset_def)
    apply (simp add: example_box_def)
    done
  show ?thesis
    using baseline_same_as_center [of ?env ?b 40 example_metrics 2] c
    by (simp add: example_box_def)
qed

subsection \<open>When \<^verbatim>\<open>svg_size\<close> leaves \<^verbatim>\<open>valign\<close> alone\<close>

text \<open>
  C10. If the vector graphic has no style attribute, or its style has no
  \<^verbatim>\<open>vertical-align\<close> rule whose length parses with the unit \<^verbatim>\<open>ex\<close> or \<^verbatim>\<open>px\<close>, then
  \<^verbatim>\<open>svg_size()\<close> leaves the box, and so its field \<^verbatim>\<open>valign\<close>, unchanged, whether it returns or
  throws; so does \<^verbatim>\<open>_size()\<close>, and \<^verbatim>\<open>_computed_position()\<close> computes its vertical offset with
  the \<^verbatim>\<open>valign\<close> the box had before: the value is not reset.
\<close>

theorem svg_size_keeps_valign:
  assumes "\<And>el style v unit.
      to_svg env b = Inr (Some el) \<Longrightarrow> getAttribute el ''style'' = Some style \<Longrightarrow>
      vertical_align env style = Inr (Some (v, unit)) \<Longrightarrow> unit \<noteq> ''ex'' \<and> unit \<noteq> ''px''"
  shows "snd (svg_size env b) = b \<and>
         snd (MathBox_size env b) = b \<and>
         fst (computed_position env b) =
           (case fst (MathBox_size env b) of
              Inl e \<Rightarrow> Inl e
            | Inr sz \<Rightarrow>
                Inr (sx (position b) - x_offset (resolved_x_anchor b) (width sz),
                     sy (position b) -
                       y_offset (resolved_y_anchor b) (height sz) (font_metrics env (font b))
                         (valign b)))"
proof -
  have 1: "snd (svg_size env b) = b"
    using assms unfolding svg_size_def Let_def
    by (auto split: option.splits sum.splits prod.splits)
  have 2: "snd (MathBox_size env b) = b"
    using 1 by (auto simp: MathBox_size_def Let_def split: option.splits sum.splits prod.splits)
  have 3: "fst (computed_position env b) =
           (case fst (MathBox_size env b) of
              Inl e \<Rightarrow> Inl e
            | Inr sz \<Rightarrow>
                Inr (sx (position b) - x_offset (resolved_x_anchor b) (width sz),
                     sy (position b) -
                       y_offset (resolved_y_anchor b) (height sz) (font_metrics env (font b))
                         (valign b)))"
    using 2 by (cases "MathBox_size env b")
      (auto simp: computed_position_def Let_def split: sum.splits)
  from 1 2 3 show ?thesis by simp
qed

text \<open>
  A graphic whose style is \<^verbatim>\<open>vertical-align: 2em\<close>: the \<^verbatim>\<open>valign\<close> 7 of the box stays.
\<close>

theorem svg_size_keeps_valign_witness:
  "to_svg (example_env loaded (Some (engine_returning [em_svg])))
     ((example_box TeXBox ''x^2'')\<lparr>valign := 7\<rparr>) = Inr (Some em_svg) \<and>
   getAttribute em_svg ''style'' = Some ''vertical-align: 2em'' \<and>
   vertical_align (example_env loaded (Some (engine_returning [em_svg]))) ''vertical-align: 2em'' =
     Inr (Some (2, ''em'')) \<and>
   svg_size (example_env loaded (Some (engine_returning [em_svg])))
     ((example_box TeXBox ''x^2'')\<lparr>valign := 7\<rparr>) =
     (Inr \<lparr>width = 10, height = 40\<rparr>, (example_box TeXBox ''x^2'')\<lparr>valign := 7\<rparr>) \<and>
   valign (snd (svg_size (example_env loaded (Some (engine_returning [em_svg])))
     ((example_box TeXBox ''x^2'')\<lparr>valign := 7\<rparr>))) = 7"
proof -
  let ?env = "example_env loaded (Some (engine_returning [em_svg]))"
  let ?b = "(example_box TeXBox ''x^2'')\<lparr>valign := 7\<rparr>"
  have svg: "to_svg ?env ?b = Inr (Some em_svg)"
    by (simp add: to_svg_def TeXBox_to_svg_def first_child_def example_defs)
  have sty: "getAttribute em_svg ''style'' = Some ''vertical-align: 2em''"
    by (simp add: getAttribute_def em_svg_def)
  have va: "vertical_align ?env ''vertical-align: 2em'' = Inr (Some (2, ''em''))"
    by (simp add: vertical_align_def trim_def is_space_def example_env_def)
  have h: "\<And>el style v unit.
      to_svg ?env ?b = Inr (Some el) \<Longrightarrow> getAttribute el ''style'' = Some style \<Longrightarrow>
      vertical_align ?env style = Inr (Some (v, unit)) \<Longrightarrow> unit \<noteq> ''ex'' \<and> unit \<noteq> ''px''"
    using svg sty va by auto
  have sz: "svg_size ?env ?b = (Inr \<lparr>width = 10, height = 40\<rparr>, ?b)"
    by (simp add: svg_size_def to_svg_def TeXBox_to_svg_def first_child_def attribute_number_def
        getAttribute_def strip_A_to_z_def vertical_align_def trim_def is_space_def example_defs
        em_svg_def)
  show ?thesis
    using svg_size_keeps_valign [of ?env ?b, OF h] svg sty va sz
    by (simp add: example_box_def)
qed

subsection \<open>Font sizes in \<^verbatim>\<open>em\<close>\<close>

text \<open>
  C6 (as amended). In the setter \<^verbatim>\<open>visuals\<close>, for a font size that parses as \<open>s\<close> with the
  unit \<^verbatim>\<open>em\<close> and a base font size \<open>B\<close> of the box that is not zero, the size put into the
  font string is \<open>s * font_size_scale * B\<close> in \<^verbatim>\<open>px\<close>; it is \<open>s * B\<close> when the scale of the
  box is 1. (A base font size 0 is falsy: the size then stays in \<^verbatim>\<open>em\<close>.)
\<close>

theorem em_font_size_in_pixels:
  assumes "parse_css_font_size env (text_font_size v) = Some (s, ''em'')"
    and "base_font_size b \<noteq> 0"
  shows "scaled_font_size b (s, ''em'') = (s * font_size_scale b * base_font_size b, ''px'') \<and>
         font (set_visuals env v b) =
           text_font_style v @ '' '' @
           number_to_string env (s * font_size_scale b * base_font_size b) @ ''px'' @
           '' '' @ text_font v \<and>
         (font_size_scale b = 1 \<longrightarrow>
            scaled_font_size b (s, ''em'') = (s * base_font_size b, ''px''))"
  using assms by (simp add: scaled_font_size_def set_visuals_def Let_def)

theorem em_font_size_in_pixels_witness:
  "parse_css_font_size (example_env not_started None) (text_font_size example_visuals) = Some (1, ''em'') \<and>
   base_font_size (example_box TeXBox ''x^2'') = 13 \<and>
   font_size_scale (example_box TeXBox ''x^2'') = 1 \<and>
   scaled_font_size (example_box TeXBox ''x^2'') (1, ''em'') = (13, ''px'') \<and>
   font (set_visuals (example_env not_started None) example_visuals (example_box TeXBox ''x^2'')) =
     ''normal 13px sans''"
proof -
  have h1: "parse_css_font_size (example_env not_started None) (text_font_size example_visuals) =
      Some (1, ''em'')"
    by (simp add: example_env_def example_visuals_def)
  have h2: "base_font_size (example_box TeXBox ''x^2'') \<noteq> 0"
    by (simp add: example_box_def)
  show ?thesis
    using em_font_size_in_pixels [OF h1 h2] h1
    by (simp add: example_box_def example_env_def example_visuals_def)
qed

text \<open>
  C6 as stated fails for a box whose \<^verbatim>\<open>font_size_scale\<close> is 2: with the base size 13 the
  size \<^verbatim>\<open>1em\<close> becomes \<^verbatim>\<open>26px\<close>, not \<open>1 * 13\<close>.
\<close>

theorem em_font_size_scale_counterexample:
  "parse_css_font_size (example_env not_started None) (text_font_size example_visuals) = Some (1, ''em'') \<and>
   base_font_size ((example_box TeXBox ''x^2'')\<lparr>font_size_scale := 2\<rparr>) = 13 \<and>
   scaled_font_size ((example_box TeXBox ''x^2'')\<lparr>font_size_scale := 2\<rparr>) (1, ''em'') = (26, ''px'') \<and>
   font (set_visuals (example_env not_started None) example_visuals
          ((example_box TeXBox ''x^2'')\<lparr>font_size_scale := 2\<rparr>)) = ''normal 26px sans'' \<and>
   font (set_visuals (example_env not_started None) example_visuals
          ((example_box TeXBox ''x^2'')\<lparr>font_size_scale := 2\<rparr>)) \<noteq> ''normal 13px sans''"
  by (simp add: scaled_font_size_def set_visuals_def example_box_def example_env_def
      example_visuals_def)

subsection \<open>Loading the provider\<close>

text \<open>
  C5 (as amended). \<^verbatim>\<open>load_provider()\<close> starts the provider's fetch and awaits it if the
  status is \<open>not_started\<close>: one more fetch is started, and the promise settles with the
  status \<open>loaded\<close> or \<open>failed\<close>. Under every other status, \<open>loading\<close> as well as \<open>loaded\<close>
  and \<open>failed\<close>, it starts nothing and awaits nothing: its promise settles with the
  provider as it was.
\<close>

theorem load_provider_cases:
  "(status p = not_started \<longrightarrow>
      load_provider outcome p = fetch outcome p \<and>
      fetches (load_provider outcome p) = fetches p + 1 \<and>
      status (load_provider outcome p) = (case outcome of Some mj \<Rightarrow> loaded | None \<Rightarrow> failed)) \<and>
   (status p \<noteq> not_started \<longrightarrow> load_provider outcome p = p)"
  by (simp add: load_provider_def fetch_def fetch_begin_def fetch_settle_def split: option.splits)

theorem load_provider_cases_witness:
  "status fresh_provider = not_started \<and>
   load_provider None fresh_provider = \<lparr>status = failed, MathJax = None, fetches = 1\<rparr> \<and>
   status loading_provider \<noteq> not_started \<and>
   load_provider None loading_provider = loading_provider"
  using load_provider_cases [of fresh_provider None] load_provider_cases [of loading_provider None]
  by (simp add: fresh_provider_def loading_provider_def fetch_def fetch_begin_def fetch_settle_def)

text \<open>
  C5 as stated fails under the status \<open>loading\<close>: the promise of \<^verbatim>\<open>load_provider()\<close> settles
  while the status is still \<open>loading\<close>, whereas the fetch in flight ends, here, with
  \<open>failed\<close>.
\<close>

theorem load_provider_loading_counterexample:
  "status loading_provider = loading \<and>
   status (load_provider None loading_provider) = loading \<and>
   status (fetch_settle None loading_provider) = failed"
  by (simp add: load_provider_def loading_provider_def fetch_settle_def)

subsection \<open>The failures of \<^verbatim>\<open>to_svg\<close>\<close>




subsection \<open>Exceptions of \<^verbatim>\<open>paint\<close>\<close>

text \<open>
  \<^verbatim>\<open>paint\<close> calls \<^verbatim>\<open>_computed_position()\<close> after \<^verbatim>\<open>ctx.save()\<close> and before its \<^verbatim>\<open>try\<close> block.
  It ends with an exception exactly when \<^verbatim>\<open>_computed_position()\<close> does, and then the
  surface has been saved and not restored.
\<close>

lemma paint_throws_iff:
  "fst (paint env b ctx) = Some e \<longleftrightarrow> fst (computed_position env b) = Inl e"
  by (cases "computed_position env b")
    (auto simp: paint_def Let_def split: sum.splits prod.splits option.splits)

lemma paint_thrown_surface:
  assumes "fst (computed_position env b) = Inl e"
  shows "paint env b ctx = (Some e, snd (computed_position env b), ctx @ [Save])"
  using assms by (cases "computed_position env b") (simp add: paint_def Let_def)

text \<open>
  Once \<^verbatim>\<open>_computed_position()\<close> has returned the coordinates \<open>xy\<close>, \<^verbatim>\<open>paint\<close> returns
  normally: every exception of the \<^verbatim>\<open>try\<close> block is caught. The surface is saved once
  and restored once, at the end; in between come the rotation and either the translation
  and the composited graphic or, after an exception, the plain text of the box in its
  font and colour, left-aligned on the alphabetic baseline at \<open>(x, y + ascent)\<close>.
\<close>

lemma paint_try_ops:
  "\<exists>ops. snd (snd (paint_try env b xy ctx)) = ctx @ ops \<and> Save \<notin> set ops \<and> Restore \<notin> set ops \<and>
     (fst (paint_try env b xy ctx) = None \<longrightarrow>
        (\<exists>svg sz. ops = [Translate (fst xy) (snd xy), Draw svg sz]))"
  by (auto simp: paint_try_def Let_def split: option.splits sum.splits prod.splits)

lemma paint_try_keeps:
  assumes "paint_try env b xy ctx = (r, b', ctx')"
  shows "font b' = font b" and "color b' = color b" and "box_text b' = box_text b"
proof -
  have "b' = b \<or> b' = snd (svg_size env b)"
    using assms
    by (auto simp: paint_try_def Let_def split: option.splits sum.splits prod.splits)
  then show "font b' = font b" and "color b' = color b" and "box_text b' = box_text b"
    using svg_size_keeps [of env b "fst (svg_size env b)" "snd (svg_size env b)"]
    by auto
qed

lemma rotation_ops_no_save: "Save \<notin> set (rotation_ops b) \<and> Restore \<notin> set (rotation_ops b)"
  by (simp add: rotation_ops_def split: option.splits)

lemma fallback_ops_no_save:
  "Save \<notin> set (fallback_ops env b xy) \<and> Restore \<notin> set (fallback_ops env b xy)"
  by (simp add: fallback_ops_def)

lemma paint_returns:
  assumes "computed_position env b = (Inr xy, b1)"
  shows "\<exists>b2 ops. paint env b ctx = (None, b2, ctx @ [Save] @ rotation_ops b @ ops @ [Restore]) \<and>
           Save \<notin> set ops \<and> Restore \<notin> set ops \<and>
           (case fst (paint_try env b1 xy (ctx @ [Save] @ rotation_ops b)) of
              None \<Rightarrow> \<exists>svg sz. ops = [Translate (fst xy) (snd xy), Draw svg sz]
            | Some e \<Rightarrow> \<exists>pre. ops = pre @ fallback_ops env b xy)"
proof -
  let ?ctx2 = "ctx @ [Save] @ rotation_ops b"
  obtain r b2 ctx3 where t: "paint_try env b1 xy ?ctx2 = (r, b2, ctx3)"
    by (cases "paint_try env b1 xy ?ctx2") auto
  obtain ops where ops: "ctx3 = ?ctx2 @ ops" "Save \<notin> set ops" "Restore \<notin> set ops"
    "r = None \<longrightarrow> (\<exists>svg sz. ops = [Translate (fst xy) (snd xy), Draw svg sz])"
    using paint_try_ops [of env b1 xy ?ctx2] t by auto
  have k1: "font b1 = font b" "color b1 = color b" "box_text b1 = box_text b"
    using assms MathBox_size_keeps [of env b "fst (MathBox_size env b)" "snd (MathBox_size env b)"]
    by (auto simp: computed_position_def Let_def split: sum.splits prod.splits)
  have k2: "font b2 = font b" "color b2 = color b" "box_text b2 = box_text b"
    using paint_try_keeps [OF t] k1 by simp_all
  have ctx2: "(case angle b of None \<Rightarrow> ctx @ [Save]
       | Some t \<Rightarrow> if t \<noteq> 0 then (ctx @ [Save]) @ [Translate (sx (position b)) (sy (position b)), Rotate t,
            Translate (- sx (position b)) (- sy (position b))] else ctx @ [Save]) = ?ctx2"
    by (simp add: rotation_ops_def split: option.splits)
  show ?thesis
  proof (cases r)
    case None
    have "paint env b ctx = (None, b2, ?ctx2 @ ops @ [Restore])"
      using assms t None ops(1) ctx2 by (cases xy) (simp add: paint_def Let_def)
    then show ?thesis using ops None t by simp
  next
    case (Some e)
    have "paint env b ctx = (None, b2, ?ctx2 @ (ops @ fallback_ops env b xy) @ [Restore])"
      using assms t Some ops(1) ctx2 k2
      by (cases xy) (simp add: paint_def Let_def fallback_ops_def)
    moreover have "Save \<notin> set (ops @ fallback_ops env b xy) \<and> Restore \<notin> set (ops @ fallback_ops env b xy)"
      using ops(2,3) fallback_ops_no_save [of env b xy] by simp
    ultimately show ?thesis using Some t by (intro exI [of _ b2] exI [of _ "ops @ fallback_ops env b xy"]) auto
  qed
qed

text \<open>
  C1 fails on the code. With a loaded provider whose conversion throws for the formula
  (a \<^verbatim>\<open>MathMLBox\<close> with the text \<^verbatim>\<open>x\<close>), or whose container has no child, \<^verbatim>\<open>paint\<close>
  ends with the exception, draws no text, and leaves the surface saved and not restored.
\<close>

theorem paint_throws_before_try:
  "paint (example_env loaded (Some engine_throwing)) (example_box MathMLBox ''x'') [] =
     (Some (EngineError ''conversion failed''), example_box MathMLBox ''x'', [Save]) \<and>
   paint (example_env loaded (Some (engine_returning []))) (example_box TeXBox ''x^2'') [] =
     (Some TypeError, example_box TeXBox ''x^2'', [Save])"
  by (simp add: paint_def computed_position_def MathBox_size_def svg_size_def to_svg_def
      TeXBox_to_svg_def MathMLBox_to_svg_def first_child_def example_defs)

subsection \<open>The styled formula of \<^verbatim>\<open>MathMLBox\<close>\<close>

text \<open>Where the pattern of the closing tag is found.\<close>

lemma starts_with_iff: "starts_with s p \<longleftrightarrow> (\<exists>r. s = p @ r)"
  by (induction s p rule: starts_with.induct) auto

lemma lit_rest_iff: "lit_rest p s = Some r \<longleftrightarrow> s = p @ r"
  by (induction p s rule: lit_rest.induct) auto

lemma lit_rest_iff': "Some r = lit_rest p s \<longleftrightarrow> s = p @ r"
  using lit_rest_iff [of p s r] by auto

lemma lit_rest_None_iff: "lit_rest p s = None \<longleftrightarrow> \<not> starts_with s p"
  by (induction p s rule: lit_rest.induct) auto

lemma rests_Lit: "rests (Lit p) s \<noteq> [] \<longleftrightarrow> starts_with s p"
  using lit_rest_None_iff [of p s] by (cases "lit_rest p s") auto

lemma rests_any_then_gt:
  "rests (Seq (Lazy_star Any_char) (Lit ''>'')) w \<noteq> [] \<longleftrightarrow> CHR ''>'' \<in> set w"
  by (induction w) auto

lemma rests_math_tail:
  "rests (Seq (Lit ''math'') (Seq (Lazy_star Any_char) (Lit ''>''))) r \<noteq> [] \<longleftrightarrow>
     starts_with r ''math'' \<and> CHR ''>'' \<in> set (drop 4 r)"
proof -
  have "rests (Seq (Lit ''math'') (Seq (Lazy_star Any_char) (Lit ''>''))) r =
      (case lit_rest ''math'' r of None \<Rightarrow> []
       | Some x \<Rightarrow> rests (Seq (Lazy_star Any_char) (Lit ''>'')) x)"
    by (simp split: option.splits)
  moreover have "\<And>x. lit_rest ''math'' r = Some x \<Longrightarrow> x = drop 4 r"
    by (simp add: lit_rest_iff)
  ultimately show ?thesis
    using rests_any_then_gt lit_rest_None_iff [of "''math''" r]
    by (cases "lit_rest ''math'' r") (simp_all del: rests.simps)
qed

lemma rests_lazy_star_seq:
  "rests (Seq (Lazy_star k) r) [] = rests r []"
  "rests (Seq (Lazy_star k) r) (c # cs) =
     rests r (c # cs) @ (if in_class k c then rests (Seq (Lazy_star k) r) cs else [])"
  by simp_all

lemma rests_lit_seq:
  "rests (Seq (Lit p) r) s = (case lit_rest p s of None \<Rightarrow> [] | Some x \<Rightarrow> rests r x)"
  by (simp split: option.splits)

lemma rests_tag_tail:
  "rests (Seq (Lazy_star (None_of ''>''))
       (Seq (Lit ''math'') (Seq (Lazy_star Any_char) (Lit ''>'')))) r \<noteq> [] \<longleftrightarrow> tag_tail r"
proof (induction r)
  case Nil
  show ?case
    using rests_math_tail [of "[]"] by (simp only: rests_lazy_star_seq) simp
next
  case (Cons c cs)
  show ?case
    using rests_math_tail [of "c # cs"] Cons.IH
    by (simp only: rests_lazy_star_seq tag_tail.simps) auto
qed

lemma match_here_close_tag:
  "match_here close_tag_re s \<noteq> None \<longleftrightarrow> starts_with s ''</'' \<and> tag_tail (drop 2 s)"
proof -
  have 1: "match_here close_tag_re s \<noteq> None \<longleftrightarrow> rests close_tag_re s \<noteq> []"
    by (simp add: match_here_def split: list.splits)
  have 2: "rests close_tag_re s =
      (case lit_rest ''</'' s of None \<Rightarrow> []
       | Some x \<Rightarrow> rests (Seq (Lazy_star (None_of ''>''))
           (Seq (Lit ''math'') (Seq (Lazy_star Any_char) (Lit ''>'')))) x)"
    unfolding close_tag_re_def by (rule rests_lit_seq)
  show ?thesis
  proof (cases "lit_rest ''</'' s")
    case None
    then show ?thesis using 1 2 lit_rest_None_iff [of "''</''" s] by simp
  next
    case (Some x)
    then have "s = ''</'' @ x" by (simp add: lit_rest_iff)
    then have "x = drop 2 s" "starts_with s ''</''" by (simp_all add: starts_with_iff)
    then show ?thesis using 1 2 Some rests_tag_tail [of x] by simp
  qed
qed

lemma js_match_close_tag:
  "js_match close_tag_re s \<noteq> None \<longleftrightarrow> has_closing_tag s"
proof (induction s)
  case Nil
  show ?case using match_here_close_tag [of "[]"] by simp
next
  case (Cons c cs)
  show ?case
    using match_here_close_tag [of "c # cs"] Cons.IH
    by (cases "match_here close_tag_re (c # cs)") (auto simp del: starts_with.simps)
qed

text \<open>Inserting a tag behind a \<open>>\<close> creates no closing tag.\<close>

lemma starts_with_append_last:
  assumes "starts_with (x @ y) m" and "x \<noteq> []" and "last x \<notin> set m"
  shows "\<exists>q. x = m @ q \<and> q \<noteq> []"
  using assms
proof (induction m arbitrary: x)
  case Nil
  then show ?case by simp
next
  case (Cons a m)
  from Cons.prems(2) obtain c x' where x: "x = c # x'" by (cases x) auto
  with Cons.prems(1) have ca: "c = a" and sw: "starts_with (x' @ y) m" by simp_all
  have "x' \<noteq> []" using Cons.prems(3) x ca by auto
  moreover have "last x' \<notin> set m" using Cons.prems(3) x \<open>x' \<noteq> []\<close> by simp
  ultimately obtain q where "x' = m @ q" "q \<noteq> []" using Cons.IH [OF sw] by blast
  then show ?case using x ca by simp
qed

lemma tag_tail_insert:
  assumes "p \<noteq> []" and "last p = CHR ''>''" and "tag_tail (p @ ins @ suf)"
  shows "tag_tail (p @ suf)"
  using assms
proof (induction p)
  case Nil
  then show ?case by simp
next
  case (Cons c p)
  show ?case
  proof (cases "p = []")
    case True
    with Cons.prems have "c = CHR ''>''" by simp
    with Cons.prems(3) True show ?thesis by simp
  next
    case False
    with Cons.prems have lp: "last p = CHR ''>''" by simp
    from Cons.prems(3) consider
      (here) "starts_with ((c # p) @ ins @ suf) ''math''" |
      (later) "c \<noteq> CHR ''>''" "tag_tail (p @ ins @ suf)"
      by auto
    then show ?thesis
    proof cases
      case here
      have "last (c # p) \<notin> set ''math''" using lp False by simp
      from starts_with_append_last [OF here _ this]
      obtain q where q: "c # p = ''math'' @ q" "q \<noteq> []" by blast
      then have "last q = CHR ''>''" using lp False
        by (metis Cons.prems(2) last_appendR)
      then have "CHR ''>'' \<in> set q" using q(2) last_in_set by metis
      then have "starts_with ((c # p) @ suf) ''math'' \<and> CHR ''>'' \<in> set (drop 4 ((c # p) @ suf))"
        unfolding q(1) by (simp add: starts_with_iff)
      then show ?thesis by (simp del: starts_with.simps)
    next
      case later
      then show ?thesis using Cons.IH [OF False lp] by simp
    qed
  qed
qed

lemma has_closing_tag_skip:
  "CHR ''<'' \<notin> set x \<Longrightarrow> has_closing_tag (x @ y) = has_closing_tag y"
  by (induction x) auto

lemma has_closing_tag_prepend: "has_closing_tag y \<Longrightarrow> has_closing_tag (x @ y)"
  by (induction x) auto

lemma has_closing_tag_insert:
  assumes "p \<noteq> []" and "last p = CHR ''>''"
    and "has_closing_tag (ins @ suf) \<Longrightarrow> has_closing_tag suf"
    and "has_closing_tag (p @ ins @ suf)"
  shows "has_closing_tag (p @ suf)"
  using assms(1,2,4)
proof (induction p)
  case Nil
  then show ?case by simp
next
  case (Cons c p)
  show ?case
  proof (cases "p = []")
    case True
    with Cons.prems have "c = CHR ''>''" by simp
    with Cons.prems(3) True have "has_closing_tag (ins @ suf)" by simp
    then show ?thesis using assms(3) True by simp
  next
    case False
    with Cons.prems have lp: "last p = CHR ''>''" by simp
    from Cons.prems(3) consider
      (here) "starts_with ((c # p) @ ins @ suf) ''</''" "tag_tail (drop 2 ((c # p) @ ins @ suf))" |
      (later) "has_closing_tag (p @ ins @ suf)"
      by auto
    then show ?thesis
    proof cases
      case here
      have "last (c # p) \<notin> set ''</''" using lp False by simp
      from starts_with_append_last [OF here(1) _ this]
      obtain q where q: "c # p = ''</'' @ q" "q \<noteq> []" by blast
      then have lq: "last q = CHR ''>''" using lp False
        by (metis Cons.prems(2) last_appendR)
      have "tag_tail (q @ ins @ suf)" using here(2) unfolding q(1) by simp
      from tag_tail_insert [OF q(2) lq this]
      have "starts_with ((c # p) @ suf) ''</'' \<and> tag_tail (drop 2 ((c # p) @ suf))"
        unfolding q(1) by (simp add: starts_with_iff)
      then show ?thesis by (simp del: starts_with.simps)
    next
      case later
      then show ?thesis using Cons.IH [OF False lp] by simp
    qed
  qed
qed

text \<open>What the pattern of the opening tag matches ends with \<open>>\<close>.\<close>

lemma lazy_star_rests_suffix: "x \<in> set (lazy_star_rests k s) \<Longrightarrow> \<exists>p. s = p @ x"
proof (induction s)
  case Nil
  then show ?case by simp
next
  case (Cons c cs)
  then show ?case by (auto split: if_splits intro: exI [of _ "[]"])
qed

lemma rests_suffix: "x \<in> set (rests r s) \<Longrightarrow> \<exists>p. s = p @ x"
proof (induction r arbitrary: s x)
  case (Lit p)
  then show ?case by (auto simp: lit_rest_iff lit_rest_iff' split: option.splits)
next
  case (Class k)
  then show ?case by (auto split: list.splits if_splits intro: exI [of _ "[c]" for c])
next
  case (Seq a b)
  from Seq.prems obtain y where "y \<in> set (rests a s)" "x \<in> set (rests b y)" by auto
  with Seq.IH obtain p p' where "s = p @ y" "y = p' @ x" by blast
  then have "s = (p @ p') @ x" by simp
  then show ?case by blast
next
  case (Opt a)
  then show ?case by (auto intro: exI [of _ "[]"])
next
  case (Lazy_star k)
  then show ?case by (simp add: lazy_star_rests_suffix)
qed

lemma rests_open_tag: "x \<in> set (rests open_tag_re s) \<Longrightarrow> \<exists>p. s = p @ ''>'' @ x"
proof -
  assume "x \<in> set (rests open_tag_re s)"
  then obtain y z where y: "y \<in> set (rests (Lit ''<math'') s)"
    and z: "z \<in> set (rests (Opt (Seq (Lazy_star Any_char) (Class (None_of ''?'')))) y)"
    and x: "x \<in> set (rests (Lit ''>'') z)"
    unfolding open_tag_re_def by (auto simp del: rests.simps(1,4))
  from x have "z = ''>'' @ x" by (auto simp: lit_rest_iff lit_rest_iff' split: option.splits)
  moreover from y z obtain p p' where "s = p @ y" "y = p' @ z" using rests_suffix by blast
  ultimately have "s = (p @ p') @ ''>'' @ x" by simp
  then show ?thesis by blast
qed

lemma match_here_open_tag:
  assumes "match_here open_tag_re s = Some m"
  shows "\<exists>q rest. m = q @ ''>'' \<and> s = m @ rest"
proof -
  from assms obtain rest rs where r: "rests open_tag_re s = rest # rs"
    and m: "m = take (length s - length rest) s"
    by (auto simp: match_here_def split: list.splits)
  then have "rest \<in> set (rests open_tag_re s)" by simp
  then obtain p where "s = p @ ''>'' @ rest" using rests_open_tag by blast
  then have "m = p @ ''>''" "s = m @ rest" using m by simp_all
  then show ?thesis by blast
qed

lemma js_match_open_tag:
  "js_match open_tag_re s = Some m \<Longrightarrow> \<exists>u q rest. m = q @ ''>'' \<and> s = u @ m @ rest"
proof (induction s)
  case Nil
  then show ?case using match_here_open_tag [of "[]" m] by auto
next
  case (Cons c cs)
  show ?case
  proof (cases "match_here open_tag_re (c # cs)")
    case None
    with Cons.prems have "js_match open_tag_re cs = Some m" by simp
    from Cons.IH [OF this] obtain u q rest where "m = q @ ''>''" "cs = u @ m @ rest" by blast
    then have "m = q @ ''>'' \<and> c # cs = (c # u) @ m @ rest" by simp
    then show ?thesis by blast
  next
    case (Some m')
    with Cons.prems have "m' = m" by simp
    with Some obtain q rest where "m = q @ ''>''" "c # cs = m @ rest"
      using match_here_open_tag by blast
    then have "m = q @ ''>'' \<and> c # cs = [] @ m @ rest" by simp
    then show ?thesis by blast
  qed
qed

lemma indexOf_substring:
  "s = u @ m @ rest \<Longrightarrow> \<exists>u' rest'. s = u' @ m @ rest' \<and> indexOf s m = int (length u')"
proof (induction s arbitrary: u)
  case Nil
  then show ?case by simp
next
  case (Cons c cs)
  show ?case
  proof (cases "starts_with (c # cs) m")
    case True
    then obtain r where "c # cs = [] @ m @ r" by (auto simp: starts_with_iff)
    moreover have "indexOf (c # cs) m = int (length ([]::string))" using True by simp
    ultimately show ?thesis by blast
  next
    case False
    then have "u \<noteq> []" using Cons.prems by (auto simp: starts_with_iff)
    then obtain u2 where "u = c # u2" "cs = u2 @ m @ rest" using Cons.prems by (cases u) auto
    from Cons.IH [OF this(2)] obtain u' rest' where
      "cs = u' @ m @ rest'" "indexOf cs m = int (length u')" by blast
    then have "c # cs = (c # u') @ m @ rest' \<and> indexOf (c # cs) m = int (length (c # u'))"
      using False by (simp add: Let_def)
    then show ?thesis by blast
  qed
qed

lemma mstyle_open_no_closing_tag:
  assumes "CHR ''<'' \<notin> set (color2hexrgb env (color b))"
  shows "has_closing_tag (mstyle_open env b @ suf) = has_closing_tag suf"
  using assms by (simp add: mstyle_open_def dquote_def has_closing_tag_skip)

text \<open>
  When the pattern of the opening tag or the pattern of the closing tag is not found in
  the trimmed text, the result is the trimmed text (for a colour whose hexadecimal form
  holds no \<^verbatim>\<open><\<close>): the insertion of the opening \<^verbatim>\<open>mstyle\<close> tag cannot make the second
  pattern match.
\<close>

lemma styled_formula_without_closing_tag:
  assumes "js_match close_tag_re (trim (box_text b)) = None"
    and "CHR ''<'' \<notin> set (color2hexrgb env (color b))"
  shows "MathMLBox_styled_formula env b = trim (box_text b)"
proof (cases "js_match open_tag_re (trim (box_text b))")
  case None
  then show ?thesis by (simp add: MathMLBox_styled_formula_def Let_def)
next
  case (Some m)
  let ?s = "trim (box_text b)"
  from js_match_open_tag [OF Some] obtain u q rest where m: "m = q @ ''>''" "?s = u @ m @ rest"
    by blast
  from indexOf_substring [OF m(2)] obtain u' rest' where
    s: "?s = u' @ m @ rest'" and i: "indexOf ?s m = int (length u')" by blast
  have ins: "insert_text_on_position ?s (indexOf ?s m + int (length m)) (mstyle_open env b) =
      (u' @ m) @ mstyle_open env b @ rest'"
    unfolding insert_text_on_position_def i by (subst (1 2) s) (simp add: nat_add_distrib)
  have "\<not> has_closing_tag ((u' @ m) @ rest')"
    using assms(1) js_match_close_tag [of ?s] s by simp
  moreover have "u' @ m \<noteq> []" "last (u' @ m) = CHR ''>''" using m(1) by simp_all
  ultimately have "\<not> has_closing_tag ((u' @ m) @ mstyle_open env b @ rest')"
    using has_closing_tag_insert [of "u' @ m" "mstyle_open env b" rest']
      mstyle_open_no_closing_tag [OF assms(2)]
    by blast
  then have "js_match close_tag_re ((u' @ m) @ mstyle_open env b @ rest') = None"
    using js_match_close_tag by blast
  then show ?thesis
    using Some ins by (simp add: MathMLBox_styled_formula_def Let_def)
qed

lemma styled_formula_without_tags:
  assumes "js_match open_tag_re (trim (box_text b)) = None \<or>
           js_match close_tag_re (trim (box_text b)) = None"
    and "CHR ''<'' \<notin> set (color2hexrgb env (color b))"
  shows "MathMLBox_styled_formula env b = trim (box_text b)"
proof (cases "js_match open_tag_re (trim (box_text b))")
  case None
  then show ?thesis by (simp add: MathMLBox_styled_formula_def Let_def)
next
  case (Some m)
  with assms(1) have "js_match close_tag_re (trim (box_text b)) = None" by simp
  then show ?thesis using assms(2) by (rule styled_formula_without_closing_tag)
qed

text \<open>When the opening tag has an attribute, the two tags are inserted around the content.\<close>

lemma styled_formula_math_tag_with_attribute:
  "MathMLBox_styled_formula (example_env not_started None) (example_box MathMLBox ''<math a=b>X</math>'') =
     ''<math a=b><mstyle displaystyle='' @ dquote @ ''true'' @ dquote @
     '' mathcolor='' @ dquote @ ''#ff0000'' @ dquote @ '' >X</mstyle></math>''"
  by (simp add: MathMLBox_styled_formula_def trim_def is_space_def open_tag_re_def
      close_tag_re_def match_here_def mstyle_open_def insert_text_on_position_def dquote_def
      example_env_def example_box_def)

text \<open>
  C7 fails on the code for the input \<^verbatim>\<open><math>X</math>\<close> of the claim. The optional group of
  \<^verbatim>\<open>/<math(.*?[^?])?>/s\<close> is tried before the bare \<^verbatim>\<open>>\<close>, so the pattern matches up to the
  first \<^verbatim>\<open>>\<close> that follows a character other than \<^verbatim>\<open>?\<close> behind \<^verbatim>\<open><math\<close>: here the whole
  text. The opening \<^verbatim>\<open>mstyle\<close> tag lands behind \<^verbatim>\<open></math>\<close>, and \<^verbatim>\<open></mstyle>\<close> in front of
  \<^verbatim>\<open></math>\<close> with no opening tag before it.
\<close>

theorem styled_formula_bare_math_tag:
  "js_match open_tag_re ''<math>X</math>'' = Some ''<math>X</math>'' \<and>
   MathMLBox_styled_formula (example_env not_started None) (example_box MathMLBox ''<math>X</math>'') =
     ''<math>X</mstyle></math><mstyle displaystyle='' @ dquote @ ''true'' @ dquote @
     '' mathcolor='' @ dquote @ ''#ff0000'' @ dquote @ '' >''"
  by (simp add: MathMLBox_styled_formula_def trim_def is_space_def open_tag_re_def
      close_tag_re_def match_here_def mstyle_open_def insert_text_on_position_def dquote_def
      example_env_def example_box_def)

end
